theory Spec2Isabelle
  imports Complex_Main "HOL-Library.Multiset"
begin

section \<open>The scoring engine of the portfolio analyzer (ai_scoring.py)\<close>

text \<open>
  The class \<open>ScoringEngine\<close> maps a profile dictionary to a score breakdown. The
  embedding follows the Python text method by method.

  \<^item> Dictionaries with a fixed set of keys are records. A key that may be missing is a
    field of option type. For the text fields \<open>description\<close> and \<open>language\<close>, \<open>None\<close>
    stands for a key that is absent or whose value is Python's \<open>None\<close>: the code reads
    them with \<open>d.get(key)\<close> and tests their truth value, which treats both alike. For the
    numeric fields, the repository list and the commit activity record, \<open>None\<close>
    stands for an absent key only, the case in which \<open>d.get(key, default)\<close> returns the
    default; a key that is present holds a value of its type.
  \<^item> Python integers are \<open>int\<close>. Python floats are modelled by the rational number
    they stand for, and float arithmetic by exact arithmetic on \<open>rat\<close>: the binary
    rounding error of a single operation is not part of the model. The float literals
    \<open>0.30\<close>, \<open>0.40\<close>, \<open>0.4\<close>, \<open>0.6\<close>, \<open>0.7\<close> are the fractions they denote. Where an
    exact value lies on a rounding boundary of \<open>round(x, 2)\<close>, or within float error of
    one, the hundredth the code reports can differ by 0.01 from the one computed here
    (sub-scores 31.25, 3 and 10 give the exact sum 13.575; the code's float sum lies just
    below it and is reported as 13.57). The theorems state bounds, unrounded formulas,
    values away from such boundaries, invariance and the absence of exceptions, which do
    not depend on that.
  \<^item> Operations that can raise (\<open>/\<close>, \<open>//\<close>, subscripting) return a sum, \<open>Inl\<close> the
    exception.
  \<^item> The \<open>for\<close> loops are recursive functions over the list, the loop variables being
    the accumulator arguments.
\<close>

subsection \<open>Python primitives\<close>

datatype py_error = ZeroDivisionError | KeyError

text \<open>\<open>d.get(key, default)\<close> on an optional field.\<close>

definition get_or :: "'a option \<Rightarrow> 'a \<Rightarrow> 'a" where
  "get_or v dflt = (case v of None \<Rightarrow> dflt | Some x \<Rightarrow> x)"

text \<open>\<open>d[key]\<close>: raises \<open>KeyError\<close> when the key is missing.\<close>

definition getitem :: "'a option \<Rightarrow> py_error + 'a" where
  "getitem v = (case v of None \<Rightarrow> Inl KeyError | Some x \<Rightarrow> Inr x)"

text \<open>Truth value of an optional string: \<open>None\<close> and the empty string are false.\<close>

definition truthy :: "string option \<Rightarrow> bool" where
  "truthy v = (case v of None \<Rightarrow> False | Some s \<Rightarrow> s \<noteq> [])"

text \<open>True division \<open>a / b\<close> and floor division \<open>a // b\<close> of integers.\<close>

definition truediv :: "int \<Rightarrow> int \<Rightarrow> py_error + rat" where
  "truediv a b = (if b = 0 then Inl ZeroDivisionError else Inr (of_int a / of_int b))"

definition floordiv :: "int \<Rightarrow> int \<Rightarrow> py_error + int" where
  "floordiv a b = (if b = 0 then Inl ZeroDivisionError else Inr (a div b))"

text \<open>
  \<open>round(x, ndigits)\<close>: the multiple of \<open>10\<^sup>-\<^sup>n\<close> nearest to \<open>x\<close>; a value exactly
  half way goes to the even multiple.
\<close>

definition py_round :: "rat \<Rightarrow> nat \<Rightarrow> rat" where
  "py_round x ndigits =
     (let m = 10 ^ ndigits;
          y = x * of_int m;
          f = \<lfloor>y\<rfloor>;
          d = y - of_int f
      in of_int (if d < 1 / 2 then f
                 else if 1 / 2 < d then f + 1
                 else if even f then f else f + 1) / of_int m)"

subsection \<open>Data model\<close>

text \<open>One entry of \<open>profile_data["repositories"]\<close>; only the keys the engine reads.\<close>

record repository =
  description :: "string option"
  readme_length :: "int option"
  language :: "string option"
  stars :: "int option"
  forks :: "int option"

text \<open>\<open>profile_data["commit_activity"]\<close>.\<close>

record commit_activity_record =
  consistency_score :: "rat option"
  total_commits :: "int option"

record profile_data =
  repositories :: "repository list option"
  commit_activity :: "commit_activity_record option"

text \<open>The empty dictionary \<open>{}\<close>, default of \<open>profile_data.get("commit_activity", {})\<close>.\<close>

definition empty_commit_activity :: commit_activity_record where
  "empty_commit_activity = \<lparr>consistency_score = None, total_commits = None\<rparr>"

text \<open>The dictionary returned by \<open>calculate_score\<close>.\<close>

record weighted_score =
  score :: rat
  weight :: rat

record breakdown =
  documentation :: weighted_score
  technical_depth :: weighted_score
  activity :: weighted_score

record score_result =
  total_score :: rat
  documentation_score :: rat
  technical_depth_score :: rat
  activity_score :: rat
  score_breakdown :: breakdown

text \<open>
  The engine object. The class gives it one attribute, the dictionary \<open>WEIGHTS\<close>; an
  object may carry more (the extension part of the record scheme), and \<open>WEIGHTS\<close> may
  hold more keys than the three the engine reads.
\<close>

record engine =
  WEIGHTS :: "string \<rightharpoonup> rat"

definition ScoringEngine :: engine where
  "ScoringEngine =
     \<lparr>WEIGHTS = [''documentation'' \<mapsto> 30 / 100,
                 ''technical_depth'' \<mapsto> 40 / 100,
                 ''activity'' \<mapsto> 30 / 100]\<rparr>"

subsection \<open>\<open>_score_documentation\<close>\<close>

text \<open>
  The \<open>for\<close> loop over the repositories; the variables \<open>score\<close> and \<open>count\<close> are the
  accumulators \<open>score_acc\<close> and \<open>count_acc\<close>.
\<close>

fun documentation_loop :: "repository list \<Rightarrow> int \<Rightarrow> int \<Rightarrow> int \<times> int" where
  "documentation_loop [] score_acc count_acc = (score_acc, count_acc)"
| "documentation_loop (repo # rest) score_acc count_acc =
     (let readme_len = get_or (readme_length repo) 0;
          has_description = truthy (description repo);
          count_score = (if readme_len > 1000 then 100
                         else if readme_len > 500 then 75
                         else if readme_len > 100 then 50
                         else 25);
          count_score = (if has_description then count_score + 10 else count_score)
      in documentation_loop rest (score_acc + min 100 count_score) (count_acc + 1))"

definition score_documentation :: "profile_data \<Rightarrow> py_error + rat" where
  "score_documentation p =
     (case documentation_loop (get_or (repositories p) []) 0 0 of
        (score_acc, count_acc) \<Rightarrow>
          if count_acc > 0 then truediv score_acc count_acc else Inr 0)"

subsection \<open>\<open>_score_technical_depth\<close>\<close>

text \<open>First loop: the set \<open>languages\<close>.\<close>

fun language_loop :: "repository list \<Rightarrow> string set \<Rightarrow> py_error + string set" where
  "language_loop [] languages = Inr languages"
| "language_loop (repo # rest) languages =
     (if truthy (language repo)
      then (case getitem (language repo) of
              Inl e \<Rightarrow> Inl e
            | Inr l \<Rightarrow> language_loop rest (insert l languages))
      else language_loop rest languages)"

text \<open>Second loop: stars and forks, accumulated in \<open>complexity_score\<close>.\<close>

fun complexity_loop :: "repository list \<Rightarrow> int \<Rightarrow> int" where
  "complexity_loop [] complexity_score = complexity_score"
| "complexity_loop (repo # rest) complexity_score =
     (let star_count = get_or (stars repo) 0;
          fork_count = get_or (forks repo) 0;
          complexity_score = (if star_count > 1000 then complexity_score + 30
                              else if star_count > 100 then complexity_score + 20
                              else if star_count > 10 then complexity_score + 10
                              else complexity_score + 5);
          complexity_score = (if fork_count > 100 then complexity_score + 20
                              else if fork_count > 10 then complexity_score + 10
                              else complexity_score)
      in complexity_loop rest complexity_score)"

definition score_technical_depth :: "profile_data \<Rightarrow> py_error + rat" where
  "score_technical_depth p =
     (let repos = get_or (repositories p) [] in
      case language_loop repos {} of
        Inl e \<Rightarrow> Inl e
      | Inr languages \<Rightarrow>
          (let language_score = min 100 (int (card languages) * 20);
               complexity_score = complexity_loop repos 0
           in case floordiv complexity_score (max 1 (int (length repos))) of
                Inl e \<Rightarrow> Inl e
              | Inr q \<Rightarrow>
                  (let complexity_score = min 100 q
                   in Inr (of_int language_score * (4 / 10) + of_int complexity_score * (6 / 10)))))"

subsection \<open>\<open>_score_activity\<close>\<close>

definition score_activity :: "profile_data \<Rightarrow> rat" where
  "score_activity p =
     (let commit_activity_dict = get_or (commit_activity p) empty_commit_activity;
          consistency = get_or (consistency_score commit_activity_dict) 0;
          commits = get_or (total_commits commit_activity_dict) 0;
          commit_bonus = (if commits > 1000 then 40
                          else if commits > 500 then 30
                          else if commits > 100 then 20
                          else 10);
          activity_value = consistency * (7 / 10) + commit_bonus
      in min 100 activity_value)"

subsection \<open>\<open>calculate_score\<close>\<close>

definition calculate_score ::
  "'a engine_scheme \<Rightarrow> profile_data \<Rightarrow> py_error + score_result" where
  "calculate_score self p =
     (case score_documentation p of Inl e \<Rightarrow> Inl e | Inr doc_score \<Rightarrow>
      case score_technical_depth p of Inl e \<Rightarrow> Inl e | Inr tech_score \<Rightarrow>
      let act_score = score_activity p in
      case getitem (WEIGHTS self ''documentation'') of Inl e \<Rightarrow> Inl e | Inr w_doc \<Rightarrow>
      case getitem (WEIGHTS self ''technical_depth'') of Inl e \<Rightarrow> Inl e | Inr w_tech \<Rightarrow>
      case getitem (WEIGHTS self ''activity'') of Inl e \<Rightarrow> Inl e | Inr w_act \<Rightarrow>
      let total = doc_score * w_doc + tech_score * w_tech + act_score * w_act in
      Inr \<lparr>total_score = py_round total 2,
           documentation_score = py_round doc_score 2,
           technical_depth_score = py_round tech_score 2,
           activity_score = py_round act_score 2,
           score_breakdown =
             \<lparr>documentation = \<lparr>score = py_round doc_score 2, weight = w_doc\<rparr>,
              technical_depth = \<lparr>score = py_round tech_score 2, weight = w_tech\<rparr>,
              activity = \<lparr>score = py_round act_score 2, weight = w_act\<rparr>\<rparr>\<rparr>)"

text \<open>
  The returned dictionary looks the three weights up a second time
  (\<open>"weight": self.WEIGHTS[...]\<close>); nothing assigns to \<open>WEIGHTS\<close> in between, so the model
  reuses the values of the first lookup.
\<close>

section \<open>The specification's description of the sub-scores\<close>

text \<open>
  The functions below follow the words of the specification, not the loops of the code:
  tier tables, a mean over the list, a set of distinct languages. The theorems compare
  them with the code.
\<close>

definition spec_readme_base :: "int \<Rightarrow> int" where
  "spec_readme_base n =
     (if n > 1000 then 100 else if n > 500 then 75 else if n > 100 then 50 else 25)"

definition spec_has_description :: "repository \<Rightarrow> bool" where
  "spec_has_description r = (case description r of None \<Rightarrow> False | Some d \<Rightarrow> d \<noteq> [])"

definition spec_repository_value :: "repository \<Rightarrow> int" where
  "spec_repository_value r =
     min 100 (spec_readme_base (get_or (readme_length r) 0)
              + (if spec_has_description r then 10 else 0))"

definition spec_score_documentation :: "repository list \<Rightarrow> rat" where
  "spec_score_documentation repos =
     (if repos = [] then 0
      else of_int (sum_list (map spec_repository_value repos)) / of_int (int (length repos)))"

definition spec_languages :: "repository list \<Rightarrow> string set" where
  "spec_languages repos = set (filter (\<lambda>l. l \<noteq> []) (List.map_filter language repos))"

definition spec_language_score :: "repository list \<Rightarrow> int" where
  "spec_language_score repos = min 100 (20 * int (card (spec_languages repos)))"

definition spec_star_tier :: "int \<Rightarrow> int" where
  "spec_star_tier s = (if s > 1000 then 30 else if s > 100 then 20 else if s > 10 then 10 else 5)"

definition spec_fork_tier :: "int \<Rightarrow> int" where
  "spec_fork_tier f = (if f > 100 then 20 else if f > 10 then 10 else 0)"

definition spec_tier_sum :: "repository list \<Rightarrow> int" where
  "spec_tier_sum repos =
     sum_list (map (\<lambda>r. spec_star_tier (get_or (stars r) 0)
                         + spec_fork_tier (get_or (forks r) 0)) repos)"

definition spec_complexity_score :: "repository list \<Rightarrow> int" where
  "spec_complexity_score repos = min 100 (spec_tier_sum repos div max 1 (int (length repos)))"

definition spec_score_technical_depth :: "repository list \<Rightarrow> rat" where
  "spec_score_technical_depth repos =
     4 / 10 * of_int (spec_language_score repos) + 6 / 10 * of_int (spec_complexity_score repos)"

definition spec_commit_bonus :: "int \<Rightarrow> int" where
  "spec_commit_bonus n =
     (if n > 1000 then 40 else if n > 500 then 30 else if n > 100 then 20 else 10)"

definition spec_score_activity :: "rat \<Rightarrow> int \<Rightarrow> rat" where
  "spec_score_activity consistency n =
     min 100 (consistency * (7 / 10) + of_int (spec_commit_bonus n))"

subsection \<open>Valid inputs\<close>

text \<open>
  The value ranges the data model gives for the fields: lengths and counts are not
  negative, the consistency score lies between 0 and 100. A missing field counts with
  its default.
\<close>

definition valid_repository :: "repository \<Rightarrow> bool" where
  "valid_repository r =
     (0 \<le> get_or (readme_length r) 0 \<and> 0 \<le> get_or (stars r) 0 \<and> 0 \<le> get_or (forks r) 0)"

definition valid_commit_activity :: "commit_activity_record \<Rightarrow> bool" where
  "valid_commit_activity ca =
     (0 \<le> get_or (consistency_score ca) 0 \<and> get_or (consistency_score ca) 0 \<le> 100
      \<and> 0 \<le> get_or (total_commits ca) 0)"

definition valid_profile :: "profile_data \<Rightarrow> bool" where
  "valid_profile p =
     (list_all valid_repository (get_or (repositories p) [])
      \<and> valid_commit_activity (get_or (commit_activity p) empty_commit_activity))"

subsection \<open>Example inputs\<close>

definition example_repository :: repository where
  "example_repository =
     \<lparr>description = Some ''CLI tool'', readme_length = Some 1500, language = Some ''Go'',
      stars = Some 5000, forks = Some 50\<rparr>"

text \<open>A repository dictionary with none of the keys.\<close>

definition bare_repository :: repository where
  "bare_repository =
     \<lparr>description = None, readme_length = None, language = None, stars = None, forks = None\<rparr>"

definition starred_repository :: repository where
  "starred_repository =
     \<lparr>description = None, readme_length = Some 0, language = None, stars = Some 11,
      forks = Some 0\<rparr>"

definition example_profile :: profile_data where
  "example_profile =
     \<lparr>repositories = Some [example_repository, bare_repository],
      commit_activity = Some \<lparr>consistency_score = Some 50, total_commits = Some 120\<rparr>\<rparr>"

definition empty_profile :: profile_data where
  "empty_profile = \<lparr>repositories = None, commit_activity = None\<rparr>"

section \<open>The loops compute what the specification describes\<close>

lemma get_or_simps [simp]: "get_or None d = d" "get_or (Some x) d = x"
  by (simp_all add: get_or_def)

lemma documentation_loop_eq:
  "documentation_loop repos s c =
     (s + sum_list (map spec_repository_value repos), c + int (length repos))"
proof (induction repos arbitrary: s c)
  case Nil
  show ?case by simp
next
  case (Cons r rs)
  have "documentation_loop (r # rs) s c =
        documentation_loop rs (s + spec_repository_value r) (c + 1)"
    by (simp add: Let_def spec_repository_value_def spec_readme_base_def
        spec_has_description_def truthy_def)
  then show ?case by (simp add: Cons.IH)
qed

lemma spec_languages_Cons:
  "spec_languages (r # rs) =
     (if truthy (language r) then insert (the (language r)) (spec_languages rs)
      else spec_languages rs)"
  by (cases "language r") (auto simp: spec_languages_def List.map_filter_simps truthy_def)

lemma language_loop_eq: "language_loop repos L = Inr (L \<union> spec_languages repos)"
proof (induction repos arbitrary: L)
  case Nil
  show ?case by (simp add: spec_languages_def List.map_filter_simps)
next
  case (Cons r rs)
  show ?case
  proof (cases "truthy (language r)")
    case True
    then obtain l where "language r = Some l"
      by (auto simp: truthy_def split: option.splits)
    with True show ?thesis
      by (simp add: Cons.IH spec_languages_Cons getitem_def)
  next
    case False
    then show ?thesis by (simp add: Cons.IH spec_languages_Cons)
  qed
qed

lemma complexity_loop_eq: "complexity_loop repos c = c + spec_tier_sum repos"
proof (induction repos arbitrary: c)
  case Nil
  show ?case by (simp add: spec_tier_sum_def)
next
  case (Cons r rs)
  have "complexity_loop (r # rs) c =
        complexity_loop rs
          (c + (spec_star_tier (get_or (stars r) 0) + spec_fork_tier (get_or (forks r) 0)))"
    by (simp add: Let_def spec_star_tier_def spec_fork_tier_def add.commute)
  then show ?case by (simp add: Cons.IH spec_tier_sum_def)
qed

lemma score_documentation_eq:
  "score_documentation p = Inr (spec_score_documentation (get_or (repositories p) []))"
  by (cases "get_or (repositories p) []")
     (simp_all add: score_documentation_def documentation_loop_eq truediv_def
        spec_score_documentation_def)

lemma score_technical_depth_eq:
  "score_technical_depth p = Inr (spec_score_technical_depth (get_or (repositories p) []))"
  by (simp add: score_technical_depth_def language_loop_eq complexity_loop_eq floordiv_def
      spec_language_score_def spec_complexity_score_def spec_score_technical_depth_def
      Let_def mult.commute)

lemma score_activity_eq:
  "score_activity p =
     spec_score_activity
       (get_or (consistency_score (get_or (commit_activity p) empty_commit_activity)) 0)
       (get_or (total_commits (get_or (commit_activity p) empty_commit_activity)) 0)"
  by (simp add: score_activity_def spec_score_activity_def spec_commit_bonus_def Let_def)

lemma calculate_score_eq:
  "calculate_score ScoringEngine p =
     Inr \<lparr>total_score =
            py_round (spec_score_documentation (get_or (repositories p) []) * (3 / 10)
                      + spec_score_technical_depth (get_or (repositories p) []) * (4 / 10)
                      + score_activity p * (3 / 10)) 2,
          documentation_score = py_round (spec_score_documentation (get_or (repositories p) [])) 2,
          technical_depth_score =
            py_round (spec_score_technical_depth (get_or (repositories p) [])) 2,
          activity_score = py_round (score_activity p) 2,
          score_breakdown =
            \<lparr>documentation =
               \<lparr>score = py_round (spec_score_documentation (get_or (repositories p) [])) 2,
                weight = 3 / 10\<rparr>,
             technical_depth =
               \<lparr>score = py_round (spec_score_technical_depth (get_or (repositories p) [])) 2,
                weight = 4 / 10\<rparr>,
             activity = \<lparr>score = py_round (score_activity p) 2, weight = 3 / 10\<rparr>\<rparr>\<rparr>"
  by (simp add: calculate_score_def score_documentation_eq score_technical_depth_eq
      ScoringEngine_def getitem_def Let_def)

section \<open>Rounding keeps integer bounds\<close>

lemma py_round_candidates:
  "py_round x 2 = of_int \<lfloor>x * 100\<rfloor> / 100 \<or> py_round x 2 = of_int (\<lfloor>x * 100\<rfloor> + 1) / 100"
  by (simp add: py_round_def Let_def)

lemma py_round_lower: "of_int a \<le> x \<Longrightarrow> of_int a \<le> py_round x 2"
proof -
  assume ax: "of_int a \<le> x"
  define f where "f = \<lfloor>x * 100\<rfloor>"
  have "(of_int (a * 100) :: rat) \<le> x * 100" using ax by simp
  then have af: "a * 100 \<le> f" unfolding f_def by (simp only: le_floor_iff)
  have "py_round x 2 = of_int f / 100 \<or> py_round x 2 = of_int (f + 1) / 100"
    unfolding f_def by (rule py_round_candidates)
  moreover have "(of_int a :: rat) \<le> of_int f / 100"
  proof -
    have "(of_int (a * 100) :: rat) \<le> of_int f" using af by (simp only: of_int_le_iff)
    then show ?thesis by simp
  qed
  moreover have "(of_int f :: rat) / 100 \<le> of_int (f + 1) / 100" by simp
  ultimately show ?thesis by auto
qed

lemma py_round_upper: "x \<le> of_int b \<Longrightarrow> py_round x 2 \<le> of_int b"
proof -
  assume xb: "x \<le> of_int b"
  define f where "f = \<lfloor>x * 100\<rfloor>"
  have yb: "x * 100 \<le> of_int (b * 100)" using xb by simp
  have fy: "of_int f \<le> x * 100" unfolding f_def by simp
  have fb: "f \<le> b * 100"
  proof -
    have "(of_int f :: rat) \<le> of_int (b * 100)" using fy yb by (rule order_trans)
    then show ?thesis by (simp only: of_int_le_iff)
  qed
  show ?thesis
  proof (cases "x * 100 - of_int f < 1 / 2")
    case True
    then have "py_round x 2 = of_int f / 100"
      by (simp add: py_round_def Let_def f_def)
    moreover have "(of_int f :: rat) \<le> of_int (b * 100)"
      using fb by (simp only: of_int_le_iff)
    ultimately show ?thesis by simp
  next
    case False
    then have "of_int f < x * 100" by simp
    from this yb have "(of_int f :: rat) < of_int (b * 100)" by (rule less_le_trans)
    then have "f < b * 100" by (simp only: of_int_less_iff)
    then have "f + 1 \<le> b * 100" by simp
    then have "(of_int (f + 1) :: rat) \<le> of_int (b * 100)" by (simp only: of_int_le_iff)
    then have up: "(of_int (f + 1) :: rat) / 100 \<le> of_int b" by simp
    have "(of_int f :: rat) / 100 \<le> of_int (f + 1) / 100" by simp
    from this up have low: "(of_int f :: rat) / 100 \<le> of_int b" by (rule order_trans)
    have "py_round x 2 = of_int f / 100 \<or> py_round x 2 = of_int (f + 1) / 100"
      unfolding f_def by (rule py_round_candidates)
    with up low show ?thesis by auto
  qed
qed

lemma py_round_range:
  "0 \<le> x \<Longrightarrow> x \<le> 100 \<Longrightarrow> 0 \<le> py_round x 2 \<and> py_round x 2 \<le> 100"
  using py_round_lower [of 0 x] py_round_upper [of x 100] by simp

section \<open>Ranges of the sub-scores\<close>

lemma spec_repository_value_range:
  "25 \<le> spec_repository_value r \<and> spec_repository_value r \<le> 100"
  by (simp add: spec_repository_value_def spec_readme_base_def)

lemma sum_list_spec_repository_value:
  "25 * int (length repos) \<le> sum_list (map spec_repository_value repos)
   \<and> sum_list (map spec_repository_value repos) \<le> 100 * int (length repos)"
proof (induction repos)
  case Nil
  show ?case by simp
next
  case (Cons r rs)
  with spec_repository_value_range [of r] show ?case by simp
qed

lemma spec_score_documentation_lower:
  "repos \<noteq> [] \<Longrightarrow> 25 \<le> spec_score_documentation repos"
proof -
  assume ne: "repos \<noteq> []"
  then have pos: "(0::rat) < of_int (int (length repos))" by simp
  have "(of_int (25 * int (length repos)) :: rat)
        \<le> of_int (sum_list (map spec_repository_value repos))"
    using sum_list_spec_repository_value [of repos] by (simp only: of_int_le_iff)
  then have "25 * (of_int (int (length repos)) :: rat)
             \<le> of_int (sum_list (map spec_repository_value repos))"
    by simp
  with pos have "25 \<le> (of_int (sum_list (map spec_repository_value repos)) :: rat)
                       / of_int (int (length repos))"
    by (simp only: pos_le_divide_eq)
  with ne show ?thesis by (simp add: spec_score_documentation_def)
qed

lemma spec_score_documentation_range:
  "0 \<le> spec_score_documentation repos \<and> spec_score_documentation repos \<le> 100"
proof (cases "repos = []")
  case True
  then show ?thesis by (simp add: spec_score_documentation_def)
next
  case False
  then have pos: "(0::rat) < of_int (int (length repos))" by simp
  have "(of_int (sum_list (map spec_repository_value repos)) :: rat)
        \<le> of_int (100 * int (length repos))"
    using sum_list_spec_repository_value [of repos] by (simp only: of_int_le_iff)
  then have "(of_int (sum_list (map spec_repository_value repos)) :: rat)
             \<le> 100 * of_int (int (length repos))"
    by simp
  with pos have "(of_int (sum_list (map spec_repository_value repos)) :: rat)
                 / of_int (int (length repos)) \<le> 100"
    by (simp only: pos_divide_le_eq)
  with False have up: "spec_score_documentation repos \<le> 100"
    by (simp add: spec_score_documentation_def)
  from spec_score_documentation_lower [OF False] have "0 \<le> spec_score_documentation repos"
    by simp
  with up show ?thesis by simp
qed

lemma spec_tier_sum_range: "0 \<le> spec_tier_sum repos \<and> spec_tier_sum repos \<le> 50 * int (length repos)"
  unfolding spec_tier_sum_def
  by (induction repos) (simp_all add: spec_star_tier_def spec_fork_tier_def)

lemma spec_complexity_score_range:
  "0 \<le> spec_complexity_score repos \<and> spec_complexity_score repos \<le> 50"
proof -
  let ?n = "max 1 (int (length repos))"
  have n: "0 < ?n" by simp
  have "0 \<le> spec_tier_sum repos div ?n"
    using spec_tier_sum_range [of repos] by (simp add: pos_imp_zdiv_nonneg_iff)
  moreover have "spec_tier_sum repos div ?n \<le> 50"
  proof -
    have "spec_tier_sum repos \<le> 50 * ?n"
      using spec_tier_sum_range [of repos] by (auto simp: max_def)
    then have "spec_tier_sum repos div ?n \<le> (50 * ?n) div ?n" by (rule zdiv_mono1) (rule n)
    then show ?thesis by simp
  qed
  ultimately show ?thesis by (simp add: spec_complexity_score_def)
qed

lemma spec_language_score_range:
  "0 \<le> spec_language_score repos \<and> spec_language_score repos \<le> 100"
  by (simp add: spec_language_score_def)

lemma spec_score_technical_depth_range:
  "0 \<le> spec_score_technical_depth repos \<and> spec_score_technical_depth repos \<le> 70"
proof -
  have l: "(0::rat) \<le> of_int (spec_language_score repos)"
    "(of_int (spec_language_score repos) :: rat) \<le> 100"
    using spec_language_score_range [of repos] by simp_all
  have c: "(0::rat) \<le> of_int (spec_complexity_score repos)"
    "(of_int (spec_complexity_score repos) :: rat) \<le> 50"
    using spec_complexity_score_range [of repos] by simp_all
  from l c show ?thesis by (simp add: spec_score_technical_depth_def)
qed

lemma spec_commit_bonus_range: "10 \<le> spec_commit_bonus n \<and> spec_commit_bonus n \<le> 40"
  by (simp add: spec_commit_bonus_def)

lemma spec_score_activity_range:
  assumes "0 \<le> c"
  shows "10 \<le> spec_score_activity c n \<and> spec_score_activity c n \<le> 100"
proof -
  have "(10::rat) \<le> of_int (spec_commit_bonus n)"
    using spec_commit_bonus_range [of n] by simp
  moreover have "0 \<le> c * (7 / 10)" using assms by simp
  ultimately have "10 \<le> c * (7 / 10) + of_int (spec_commit_bonus n)" by linarith
  then show ?thesis by (simp add: spec_score_activity_def)
qed

lemma weighted_sum_range:
  fixes d t a :: rat
  assumes "0 \<le> d" "d \<le> 100" "0 \<le> t" "t \<le> 100" "0 \<le> a" "a \<le> 100"
  shows "0 \<le> d * (3 / 10) + t * (4 / 10) + a * (3 / 10)"
    and "d * (3 / 10) + t * (4 / 10) + a * (3 / 10) \<le> 100"
  using assms by linarith+

section \<open>The order of the repositories\<close>

lemma spec_score_documentation_mset:
  assumes "mset xs = mset ys"
  shows "spec_score_documentation xs = spec_score_documentation ys"
proof -
  have "sum_list (map spec_repository_value xs)
        = sum_mset (image_mset spec_repository_value (mset xs))"
    by (simp add: sum_mset_sum_list [symmetric])
  also have "\<dots> = sum_list (map spec_repository_value ys)"
    by (simp add: assms sum_mset_sum_list [symmetric])
  finally have s: "sum_list (map spec_repository_value xs)
                   = sum_list (map spec_repository_value ys)" .
  have l: "length xs = length ys" using assms by (rule mset_eq_length)
  then have e: "xs = [] \<longleftrightarrow> ys = []" by auto
  show ?thesis by (simp add: spec_score_documentation_def s l e)
qed

lemma spec_tier_sum_mset:
  assumes "mset xs = mset ys"
  shows "spec_tier_sum xs = spec_tier_sum ys"
proof -
  let ?f = "\<lambda>r. spec_star_tier (get_or (stars r) 0) + spec_fork_tier (get_or (forks r) 0)"
  have "sum_list (map ?f xs) = sum_mset (image_mset ?f (mset xs))"
    by (simp add: sum_mset_sum_list [symmetric])
  also have "\<dots> = sum_list (map ?f ys)"
    by (simp add: assms sum_mset_sum_list [symmetric])
  finally show ?thesis by (simp add: spec_tier_sum_def)
qed

lemma spec_languages_set:
  "spec_languages xs = {l. l \<noteq> [] \<and> Some l \<in> language ` set xs}"
  by (induction xs)
     (auto simp: spec_languages_Cons truthy_def spec_languages_def List.map_filter_simps
        split: option.splits)

lemma spec_score_technical_depth_mset:
  assumes "mset xs = mset ys"
  shows "spec_score_technical_depth xs = spec_score_technical_depth ys"
proof -
  have "set xs = set ys" using assms by (rule mset_eq_setD)
  then have "spec_languages xs = spec_languages ys" by (simp add: spec_languages_set)
  moreover have "length xs = length ys" using assms by (rule mset_eq_length)
  moreover note spec_tier_sum_mset [OF assms]
  ultimately show ?thesis
    by (simp add: spec_score_technical_depth_def spec_language_score_def
        spec_complexity_score_def)
qed

section \<open>Claims\<close>

text \<open>
  C1: for every structurally valid profile (repositories with non-negative README
  length, stars and forks; a consistency score between 0 and 100; a non-negative commit
  total), \<open>calculate_score\<close> returns, and each of the four numbers it returns
  (\<open>total_score\<close>, \<open>documentation_score\<close>, \<open>technical_depth_score\<close>, \<open>activity_score\<close>)
  lies in the closed interval from 0 to 100.
\<close>

theorem calculate_score_range:
  assumes "valid_profile p"
  shows "\<exists>r. calculate_score ScoringEngine p = Inr r
           \<and> 0 \<le> total_score r \<and> total_score r \<le> 100
           \<and> 0 \<le> documentation_score r \<and> documentation_score r \<le> 100
           \<and> 0 \<le> technical_depth_score r \<and> technical_depth_score r \<le> 100
           \<and> 0 \<le> activity_score r \<and> activity_score r \<le> 100"
proof -
  define repos where "repos = get_or (repositories p) []"
  define d where "d = spec_score_documentation repos"
  define t where "t = spec_score_technical_depth repos"
  define a where "a = score_activity p"
  have d: "0 \<le> d" "d \<le> 100"
    using spec_score_documentation_range [of repos] by (simp_all add: d_def)
  have t: "0 \<le> t" "t \<le> 100"
    using spec_score_technical_depth_range [of repos] by (simp_all add: t_def)
  have c0: "0 \<le> get_or (consistency_score (get_or (commit_activity p) empty_commit_activity)) 0"
    using assms by (simp add: valid_profile_def valid_commit_activity_def)
  have "10 \<le> a \<and> a \<le> 100"
    unfolding a_def score_activity_eq by (rule spec_score_activity_range [OF c0])
  then have a: "0 \<le> a" "a \<le> 100" by simp_all
  have s: "0 \<le> d * (3 / 10) + t * (4 / 10) + a * (3 / 10)"
    "d * (3 / 10) + t * (4 / 10) + a * (3 / 10) \<le> 100"
    using d t a by (rule weighted_sum_range)+
  show ?thesis
    unfolding calculate_score_eq repos_def [symmetric] d_def [symmetric] t_def [symmetric]
      a_def [symmetric]
    using py_round_range [OF d] py_round_range [OF t] py_round_range [OF a] py_round_range [OF s]
    by simp
qed

theorem calculate_score_range_witness:
  "valid_profile example_profile
   \<and> (\<exists>r. calculate_score ScoringEngine example_profile = Inr r
           \<and> 0 \<le> total_score r \<and> total_score r \<le> 100
           \<and> 0 \<le> documentation_score r \<and> documentation_score r \<le> 100
           \<and> 0 \<le> technical_depth_score r \<and> technical_depth_score r \<le> 100
           \<and> 0 \<le> activity_score r \<and> activity_score r \<le> 100)"
proof -
  have v: "valid_profile example_profile"
    by (simp add: valid_profile_def valid_repository_def valid_commit_activity_def
        example_profile_def example_repository_def bare_repository_def)
  from v calculate_score_range [OF v] show ?thesis by (rule conjI)
qed

text \<open>
  C3: for every input, \<open>score_documentation\<close> gives each repository a base of 100 if its
  README is longer than 1000, 75 if longer than 500, 50 if longer than 100 and 25
  otherwise, adds 10 for a non-empty description, clamps the value of the repository at
  100 and returns the arithmetic mean of the clamped values; with no repository it
  returns 0. The division of the mean never raises.
\<close>

theorem score_documentation_clamped_mean:
  "score_documentation p = Inr (spec_score_documentation (get_or (repositories p) []))"
  by (rule score_documentation_eq)

text \<open>
  C4: for every input, \<open>score_technical_depth\<close> returns
  \<open>0.4 * language_score + 0.6 * complexity_score\<close>, where the language score is 20 times the
  number of distinct non-empty languages, capped at 100, and the complexity score is the
  sum of the star and fork tiers of all repositories, floor-divided by the number of
  repositories (at least 1), capped at 100.
\<close>

theorem score_technical_depth_formula:
  "score_technical_depth p = Inr (spec_score_technical_depth (get_or (repositories p) []))"
  by (rule score_technical_depth_eq)

text \<open>
  C5: \<open>score_activity\<close> returns \<open>min(100, consistency_score * 0.7 + bonus)\<close>, where the bonus
  is 40 above 1000 commits, 30 above 500, 20 above 100 and 10 otherwise, so it is never
  below 10. When the commit activity record is absent, or its consistency score and
  commit total are 0 (or missing), the result is exactly 10.
\<close>

theorem score_activity_bonus_floor:
  "score_activity p =
     spec_score_activity
       (get_or (consistency_score (get_or (commit_activity p) empty_commit_activity)) 0)
       (get_or (total_commits (get_or (commit_activity p) empty_commit_activity)) 0)
   \<and> 10 \<le> spec_commit_bonus n
   \<and> (commit_activity p = None \<longrightarrow> score_activity p = 10)
   \<and> (get_or (consistency_score (get_or (commit_activity p) empty_commit_activity)) 0 = 0
        \<and> get_or (total_commits (get_or (commit_activity p) empty_commit_activity)) 0 = 0
        \<longrightarrow> score_activity p = 10)"
  by (simp add: score_activity_eq spec_score_activity_def spec_commit_bonus_def
      empty_commit_activity_def)

theorem score_activity_bonus_floor_witness:
  "commit_activity empty_profile = None \<and> score_activity empty_profile = 10
   \<and> score_activity
        \<lparr>repositories = None,
         commit_activity = Some \<lparr>consistency_score = Some 0, total_commits = Some 0\<rparr>\<rparr> = 10"
  using score_activity_bonus_floor [of empty_profile 0]
    score_activity_bonus_floor
      [of "\<lparr>repositories = None,
             commit_activity = Some \<lparr>consistency_score = Some 0, total_commits = Some 0\<rparr>\<rparr>" 0]
  by (simp add: empty_profile_def)

text \<open>
  C6: for exactly one repository with a README of length 1500, a non-empty description,
  the language Go, 5000 stars and 50 forks, \<open>calculate_score\<close> returns a
  \<open>documentation_score\<close> of 100 and a \<open>technical_depth_score\<close> of 32, whatever the commit
  activity is.
\<close>

theorem single_repository_example:
  assumes "d \<noteq> []"
  shows "\<exists>r. calculate_score ScoringEngine
               \<lparr>repositories =
                  Some [\<lparr>description = Some d, readme_length = Some 1500, language = Some ''Go'',
                         stars = Some 5000, forks = Some 50\<rparr>],
                commit_activity = ca\<rparr> = Inr r
             \<and> documentation_score r = 100 \<and> technical_depth_score r = 32"
proof -
  let ?repo = "\<lparr>description = Some d, readme_length = Some 1500, language = Some ''Go'',
                 stars = Some 5000, forks = Some 50\<rparr>"
  have d: "spec_score_documentation [?repo] = 100"
    using assms
    by (simp add: spec_score_documentation_def spec_repository_value_def spec_readme_base_def
        spec_has_description_def)
  have "spec_languages [?repo] = {''Go''}"
    by (simp add: spec_languages_def List.map_filter_simps)
  then have l: "spec_language_score [?repo] = 20"
    by (simp add: spec_language_score_def)
  have c: "spec_complexity_score [?repo] = 40"
    by (simp add: spec_complexity_score_def spec_tier_sum_def spec_star_tier_def
        spec_fork_tier_def)
  have t: "spec_score_technical_depth [?repo] = 32"
    by (simp add: spec_score_technical_depth_def l c)
  have r: "py_round 100 2 = 100" "py_round 32 2 = 32"
    by (simp_all add: py_round_def)
  show ?thesis
    by (simp add: calculate_score_eq d t r)
qed

theorem single_repository_example_witness:
  "''CLI tool'' \<noteq> []
   \<and> (\<exists>r. calculate_score ScoringEngine
               \<lparr>repositories = Some [example_repository], commit_activity = None\<rparr> = Inr r
             \<and> documentation_score r = 100 \<and> technical_depth_score r = 32)"
  using single_repository_example [of "''CLI tool''" None]
  by (simp add: example_repository_def)

text \<open>
  C7: \<open>calculate_score\<close> returns a result for every input and never raises; so do the two
  sub-scorers that divide by the number of repositories. A missing repository list, a
  missing commit activity record and missing fields of a repository are scored as the
  empty list and as zero or empty values.
\<close>

theorem calculate_score_never_raises:
  "(\<exists>r. calculate_score ScoringEngine p = Inr r)
   \<and> (\<exists>d. score_documentation p = Inr d)
   \<and> (\<exists>t. score_technical_depth p = Inr t)
   \<and> calculate_score ScoringEngine \<lparr>repositories = None, commit_activity = None\<rparr>
       = calculate_score ScoringEngine
           \<lparr>repositories = Some [],
            commit_activity = Some \<lparr>consistency_score = Some 0, total_commits = Some 0\<rparr>\<rparr>
   \<and> calculate_score ScoringEngine
         \<lparr>repositories = Some [bare_repository], commit_activity = None\<rparr>
       = calculate_score ScoringEngine
           \<lparr>repositories =
              Some [\<lparr>description = Some [], readme_length = Some 0, language = Some [],
                     stars = Some 0, forks = Some 0\<rparr>],
            commit_activity = Some empty_commit_activity\<rparr>"
  by (simp add: calculate_score_eq score_documentation_eq score_technical_depth_eq
      score_activity_def empty_commit_activity_def bare_repository_def
      spec_score_documentation_def spec_repository_value_def spec_has_description_def
      spec_score_technical_depth_def spec_language_score_def spec_languages_def
      List.map_filter_simps spec_complexity_score_def spec_tier_sum_def)

text \<open>
  C9: scoring does not depend on the order of the repositories: for every permutation
  of the repository list \<open>calculate_score\<close> returns the same result.
\<close>

theorem calculate_score_permutation_invariant:
  assumes "mset repos = mset repos'"
  shows "calculate_score self \<lparr>repositories = Some repos, commit_activity = ca\<rparr>
         = calculate_score self \<lparr>repositories = Some repos', commit_activity = ca\<rparr>"
  by (simp add: calculate_score_def score_documentation_eq score_technical_depth_eq
      score_activity_def spec_score_documentation_mset [OF assms]
      spec_score_technical_depth_mset [OF assms])

theorem calculate_score_permutation_invariant_witness:
  "mset [example_repository, bare_repository] = mset [bare_repository, example_repository]
   \<and> calculate_score ScoringEngine
        \<lparr>repositories = Some [example_repository, bare_repository], commit_activity = None\<rparr>
     = calculate_score ScoringEngine
        \<lparr>repositories = Some [bare_repository, example_repository], commit_activity = None\<rparr>"
proof -
  have m: "mset [example_repository, bare_repository]
           = mset [bare_repository, example_repository]"
    by simp
  from m calculate_score_permutation_invariant [OF m] show ?thesis by (rule conjI)
qed

text \<open>
  C10: for every input with at least one repository the documentation score is at least
  25, both as \<open>score_documentation\<close> returns it and as \<open>calculate_score\<close> reports it after
  rounding.
\<close>

theorem documentation_score_at_least_25:
  assumes "repositories p = Some repos" and "repos \<noteq> []"
  shows "\<exists>d r. score_documentation p = Inr d \<and> 25 \<le> d
           \<and> calculate_score ScoringEngine p = Inr r \<and> 25 \<le> documentation_score r"
proof -
  have "25 \<le> spec_score_documentation repos"
    using assms(2) by (rule spec_score_documentation_lower)
  moreover from this have "25 \<le> py_round (spec_score_documentation repos) 2"
    using py_round_lower [of 25 "spec_score_documentation repos"] by simp
  ultimately show ?thesis
    by (simp add: score_documentation_eq calculate_score_eq assms(1))
qed

theorem documentation_score_at_least_25_witness:
  "repositories \<lparr>repositories = Some [bare_repository], commit_activity = None\<rparr>
     = Some [bare_repository]
   \<and> [bare_repository] \<noteq> []
   \<and> (\<exists>d r. score_documentation \<lparr>repositories = Some [bare_repository], commit_activity = None\<rparr>
                = Inr d \<and> 25 \<le> d
           \<and> calculate_score ScoringEngine
                \<lparr>repositories = Some [bare_repository], commit_activity = None\<rparr> = Inr r
           \<and> 25 \<le> documentation_score r)"
  using documentation_score_at_least_25
    [of "\<lparr>repositories = Some [bare_repository], commit_activity = None\<rparr>" "[bare_repository]"]
  by simp

section \<open>Further properties\<close>

text \<open>
  The complexity quotient is a floor division: for two repositories with tier sum 15
  it is 7, and the technical depth is \<open>0.6 * 7 = 4.2\<close>; the real quotient 7.5 would give
  4.5.
\<close>

theorem complexity_uses_floor_division:
  "score_technical_depth
     \<lparr>repositories = Some [bare_repository, starred_repository], commit_activity = ca\<rparr>
   = Inr (42 / 10)"
proof -
  let ?repos = "[bare_repository, starred_repository]"
  have "spec_languages ?repos = {}"
    by (simp add: spec_languages_def List.map_filter_simps bare_repository_def
        starred_repository_def)
  then have l: "spec_language_score ?repos = 0"
    by (simp add: spec_language_score_def)
  have c: "spec_complexity_score ?repos = 7"
    by (simp add: spec_complexity_score_def spec_tier_sum_def spec_star_tier_def
        spec_fork_tier_def bare_repository_def starred_repository_def)
  show ?thesis
    by (simp add: score_technical_depth_eq spec_score_technical_depth_def l c)
qed

text \<open>
  With no repository, absent or empty, the documentation score and the technical depth
  score are 0.
\<close>

theorem zero_repositories_score_zero:
  "score_documentation \<lparr>repositories = None, commit_activity = ca\<rparr> = Inr 0
   \<and> score_documentation \<lparr>repositories = Some [], commit_activity = ca\<rparr> = Inr 0
   \<and> score_technical_depth \<lparr>repositories = None, commit_activity = ca\<rparr> = Inr 0
   \<and> score_technical_depth \<lparr>repositories = Some [], commit_activity = ca\<rparr> = Inr 0"
  by (simp add: score_documentation_def score_technical_depth_def floordiv_def)

text \<open>
  The technical depth score never exceeds 70: a repository contributes at most 50 to
  the tier sum, so the complexity score is at most 50.
\<close>

theorem technical_depth_at_most_70:
  "\<exists>t. score_technical_depth p = Inr t \<and> 0 \<le> t \<and> t \<le> 70"
  using spec_score_technical_depth_range [of "get_or (repositories p) []"]
  by (simp add: score_technical_depth_eq)

text \<open>The three weights of the engine add up to 1.\<close>

theorem weights_sum_to_one:
  "\<exists>w_doc w_tech w_act.
     WEIGHTS ScoringEngine ''documentation'' = Some w_doc
     \<and> WEIGHTS ScoringEngine ''technical_depth'' = Some w_tech
     \<and> WEIGHTS ScoringEngine ''activity'' = Some w_act
     \<and> w_doc + w_tech + w_act = 1"
proof (intro exI conjI)
  show "WEIGHTS ScoringEngine ''documentation'' = Some (30 / 100)"
    by (simp add: ScoringEngine_def)
  show "WEIGHTS ScoringEngine ''technical_depth'' = Some (40 / 100)"
    by (simp add: ScoringEngine_def)
  show "WEIGHTS ScoringEngine ''activity'' = Some (30 / 100)"
    by (simp add: ScoringEngine_def)
  show "(30 / 100 :: rat) + 40 / 100 + 30 / 100 = 1"
    by simp
qed

end
